theory Spec2Isabelle
  imports Complex_Main "HOL-Library.Word"
begin

section \<open>The C data model of \<^verbatim>\<open>shim.h\<close>\<close>

text \<open>
  The header is C, written to be imported into Swift. Its \<^verbatim>\<open>int\<close> is the 32-bit two's
  complement integer of the data models in use (ILP32, LP64, LLP64), which Swift imports
  as \<^verbatim>\<open>Int32\<close>. The width of \<^verbatim>\<open>size_t\<close> is not fixed by the header (32 bits on ILP32,
  64 on LP64 and LLP64): it is the type parameter \<open>'w\<close> of the definitions below, and
  each theorem says which widths it needs. Arithmetic on \<^verbatim>\<open>size_t\<close> is unsigned and wraps
  modulo \<open>2 ^ LENGTH('w)\<close>, which is what \<open>+\<close> and \<open>*\<close> on \<open>'w word\<close> do.
\<close>

type_synonym c_int = "32 word"

text \<open>
  The one operator of the header that C leaves undefined for some operand is \<^verbatim>\<open>/\<close>: a
  zero divisor. The conversion \<^verbatim>\<open>(size_t)dimensions\<close> and the unsigned \<^verbatim>\<open>+\<close> and \<^verbatim>\<open>*\<close>
  are defined for every operand.
\<close>

datatype c_fault = Division_by_zero

definition c_udiv :: "'w::len word \<Rightarrow> 'w word \<Rightarrow> c_fault + 'w word" where
  "c_udiv a b = (if b = 0 then Inl Division_by_zero else Inr (a div b))"

text \<open>
  Modelled from the spec: \<^verbatim>\<open>sizeof(float)\<close> is a constant of the platform ABI, not of the
  header; the spec's table gives one 4-byte IEEE-754 single-precision value per element.
\<close>

definition sizeof_float :: "'w::len word" where
  "sizeof_float = 4"

text \<open>
  \<^verbatim>\<open>sizeof(int8_t)\<close> is 1 wherever \<^verbatim>\<open>int8_t\<close> exists: the type has exactly 8 bits and
  no padding, and no object is smaller than a byte.
\<close>

definition sizeof_int8_t :: "'w::len word" where
  "sizeof_int8_t = 1"

section \<open>Vector byte sizes\<close>

text \<open>\<^verbatim>\<open>return (size_t)dimensions * sizeof(float);\<close>\<close>

definition sqlite_vec_float32_byte_size :: "c_int \<Rightarrow> c_fault + 'w::len word" where
  "sqlite_vec_float32_byte_size dimensions = Inr (scast dimensions * sizeof_float)"

text \<open>\<^verbatim>\<open>return (size_t)dimensions * sizeof(int8_t);\<close>\<close>

definition sqlite_vec_int8_byte_size :: "c_int \<Rightarrow> c_fault + 'w::len word" where
  "sqlite_vec_int8_byte_size dimensions = Inr (scast dimensions * sizeof_int8_t)"

text \<open>\<^verbatim>\<open>return ((size_t)dimensions + 7) / 8;\<close>\<close>

definition sqlite_vec_binary_byte_size :: "c_int \<Rightarrow> c_fault + 'w::len word" where
  "sqlite_vec_binary_byte_size dimensions = c_udiv (scast dimensions + 7) 8"

text \<open>
  \<open>returns res n\<close>: the call came back with a \<^verbatim>\<open>size_t\<close> whose value, read as the
  unsigned number it is, is \<open>n\<close>.
\<close>

definition returns :: "c_fault + 'w::len word \<Rightarrow> int \<Rightarrow> bool" where
  "returns res n = (case res of Inl e \<Rightarrow> False | Inr r \<Rightarrow> uint r = n)"

section \<open>Registration and version\<close>

text \<open>
  \<^verbatim>\<open>sqlite3_vec_init\<close> and the macro \<^verbatim>\<open>SQLITE_VEC_VERSION\<close> come from \<^verbatim>\<open>sqlite-vec.h\<close>,
  which belongs to the extension, so both are parameters: an \<open>extension\<close> is any
  initialisation routine, acting on the state \<open>'x\<close> of the database engine and the
  extension, together with any version string. A pointer argument is \<open>NULL\<close> or points
  to something.
\<close>

datatype 'a ptr = NULL | Ptr 'a

record ('db, 'e, 'a, 'x) extension =
  sqlite3_vec_init :: "'db \<Rightarrow> 'e ptr \<Rightarrow> 'a ptr \<Rightarrow> 'x \<Rightarrow> c_int \<times> 'x"
  SQLITE_VEC_VERSION :: string

text \<open>
  The world outside the header: the state the extension works on, and the log of the
  calls made to its entry point, each with its three arguments.
\<close>

record ('db, 'e, 'a, 'x) world =
  init_calls :: "('db \<times> 'e ptr \<times> 'a ptr) list"
  ext_state :: 'x

definition call_sqlite3_vec_init ::
  "('db, 'e, 'a, 'x) extension \<Rightarrow> 'db \<Rightarrow> 'e ptr \<Rightarrow> 'a ptr \<Rightarrow>
     ('db, 'e, 'a, 'x) world \<Rightarrow> c_int \<times> ('db, 'e, 'a, 'x) world" where
  "call_sqlite3_vec_init E db pzErrMsg pApi w =
     (let (rc, x) = sqlite3_vec_init E db pzErrMsg pApi (ext_state w)
      in (rc, w\<lparr>init_calls := init_calls w @ [(db, pzErrMsg, pApi)], ext_state := x\<rparr>))"

text \<open>\<^verbatim>\<open>return sqlite3_vec_init(db, NULL, NULL);\<close>\<close>

definition sqlite_vec_register ::
  "('db, 'e, 'a, 'x) extension \<Rightarrow> 'db \<Rightarrow> ('db, 'e, 'a, 'x) world \<Rightarrow>
     c_int \<times> ('db, 'e, 'a, 'x) world" where
  "sqlite_vec_register E db w = call_sqlite3_vec_init E db NULL NULL w"

text \<open>\<^verbatim>\<open>return SQLITE_VEC_VERSION;\<close>\<close>

definition sqlite_vec_version :: "('db, 'e, 'a, 'x) extension \<Rightarrow> string" where
  "sqlite_vec_version E = SQLITE_VEC_VERSION E"

section \<open>A client of the header\<close>

text \<open>
  A process that links the header makes calls one after the other. The five functions
  are its requests; \<open>serve\<close> runs one of them in a world, \<open>run\<close> a whole history. The
  size functions and the version accessor take their arguments by value and name no
  object outside their body, so serving them leaves the world as it is.
\<close>

datatype 'db request =
    Register 'db
  | Version
  | Float32_byte_size c_int
  | Int8_byte_size c_int
  | Binary_byte_size c_int

datatype 's reply =
    Status c_int
  | Version_string string
  | Byte_size "c_fault + 's"

fun serve ::
  "('db, 'e, 'a, 'x) extension \<Rightarrow> 'db request \<Rightarrow> ('db, 'e, 'a, 'x) world \<Rightarrow>
     'w::len word reply \<times> ('db, 'e, 'a, 'x) world" where
  "serve E (Register db) w = (let (rc, w') = sqlite_vec_register E db w in (Status rc, w'))"
| "serve E Version w = (Version_string (sqlite_vec_version E), w)"
| "serve E (Float32_byte_size d) w = (Byte_size (sqlite_vec_float32_byte_size d), w)"
| "serve E (Int8_byte_size d) w = (Byte_size (sqlite_vec_int8_byte_size d), w)"
| "serve E (Binary_byte_size d) w = (Byte_size (sqlite_vec_binary_byte_size d), w)"

fun run ::
  "('db, 'e, 'a, 'x) extension \<Rightarrow> 'db request list \<Rightarrow> ('db, 'e, 'a, 'x) world \<Rightarrow>
     'w::len word reply list \<times> ('db, 'e, 'a, 'x) world" where
  "run E [] w = ([], w)"
| "run E (c # cs) w =
     (let (r, w') = serve E c w; (rs, w'') = run E cs w' in (r # rs, w''))"

section \<open>Arithmetic of the two integer types\<close>

text \<open>
  What the three bodies compute, for every \<open>d\<close> and every width: the conversion
  \<^verbatim>\<open>(size_t)dimensions\<close> is \<open>sint d mod 2 ^ LENGTH('w)\<close>, and each later operation is
  taken modulo \<open>2 ^ LENGTH('w)\<close> again.
\<close>

lemma c_int_range: "- 2147483648 \<le> sint (d::c_int) \<and> sint d < 2147483648"
  using sint_ge [of d] sint_lt [of d] by simp

lemma size_t_pow: "n \<le> LENGTH('w::len) \<Longrightarrow> (2::int) ^ n \<le> 2 ^ LENGTH('w)"
  by (rule power_increasing) simp_all

lemma size_t_ge4: "4 \<le> LENGTH('w::len) \<Longrightarrow> (16::int) \<le> 2 ^ LENGTH('w)"
  using size_t_pow [of 4, where 'w = 'w] by simp

lemma size_t_ge32: "32 \<le> LENGTH('w::len) \<Longrightarrow> (4294967296::int) \<le> 2 ^ LENGTH('w)"
  using size_t_pow [of 32, where 'w = 'w] by simp

lemma size_t_ge33: "33 \<le> LENGTH('w::len) \<Longrightarrow> (8589934592::int) \<le> 2 ^ LENGTH('w)"
  using size_t_pow [of 33, where 'w = 'w] by simp

lemma size_t_split8:
  assumes "3 \<le> LENGTH('w::len)"
  shows "(2::int) ^ LENGTH('w) = 8 * 2 ^ (LENGTH('w) - 3)"
proof -
  have "LENGTH('w) = 3 + (LENGTH('w) - 3)" using assms by simp
  then have "(2::int) ^ LENGTH('w) = 2 ^ (3 + (LENGTH('w) - 3))" by simp
  also have "\<dots> = 2 ^ 3 * 2 ^ (LENGTH('w) - 3)" by (rule power_add)
  finally show ?thesis by simp
qed

lemma uint_scast: "uint (scast (d::c_int) :: 'w::len word) = sint d mod 2 ^ LENGTH('w)"
  unfolding scast_eq by (rule uint_word_of_int)

lemma uint_float32:
  "uint (scast (d::c_int) * sizeof_float :: 'w::len word) = (4 * sint d) mod 2 ^ LENGTH('w)"
proof -
  have "(scast d * sizeof_float :: 'w word) = word_of_int (sint d) * word_of_int 4"
    by (simp add: sizeof_float_def)
  also have "\<dots> = word_of_int (sint d * 4)" by (simp only: wi_hom_mult)
  finally show ?thesis by (simp only: uint_word_of_int mult.commute)
qed

lemma uint_int8:
  "uint (scast (d::c_int) * sizeof_int8_t :: 'w::len word) = sint d mod 2 ^ LENGTH('w)"
  by (simp add: sizeof_int8_t_def uint_scast)

lemma uint_plus7:
  "uint (scast (d::c_int) + 7 :: 'w::len word) = (sint d + 7) mod 2 ^ LENGTH('w)"
proof -
  have "(scast d + 7 :: 'w word) = word_of_int (sint d) + word_of_int 7"
    by simp
  also have "\<dots> = word_of_int (sint d + 7)" by (simp only: wi_hom_add)
  finally show ?thesis by (simp only: uint_word_of_int)
qed

lemma uint_8:
  assumes "4 \<le> LENGTH('w::len)"
  shows "uint (8 :: 'w word) = 8"
proof -
  have "(8::int) < 2 ^ LENGTH('w)" using size_t_ge4 [OF assms] by simp
  then have "uint (word_of_int 8 :: 'w word) = 8"
    unfolding uint_word_of_int by (simp add: mod_pos_pos_trivial)
  then show ?thesis by simp
qed

lemma eight_nonzero:
  assumes "4 \<le> LENGTH('w::len)"
  shows "(8 :: 'w word) \<noteq> 0"
proof
  assume "(8 :: 'w word) = 0"
  then have "uint (8 :: 'w word) = uint (0 :: 'w word)" by (rule arg_cong)
  then show False unfolding uint_8 [OF assms] by simp
qed

lemma float32_returns:
  "returns (sqlite_vec_float32_byte_size d :: c_fault + 'w::len word)
     ((4 * sint d) mod 2 ^ LENGTH('w))"
  by (simp add: returns_def sqlite_vec_float32_byte_size_def uint_float32)

lemma int8_returns:
  "returns (sqlite_vec_int8_byte_size d :: c_fault + 'w::len word)
     (sint d mod 2 ^ LENGTH('w))"
  by (simp add: returns_def sqlite_vec_int8_byte_size_def uint_int8)

lemma binary_returns:
  assumes "4 \<le> LENGTH('w::len)"
  shows "returns (sqlite_vec_binary_byte_size d :: c_fault + 'w word)
     ((sint d + 7) mod 2 ^ LENGTH('w) div 8)"
proof -
  have "uint ((scast d + 7) div 8 :: 'w word) = (sint d + 7) mod 2 ^ LENGTH('w) div 8"
    unfolding uint_div uint_plus7 uint_8 [OF assms] ..
  moreover have "sqlite_vec_binary_byte_size d = (Inr ((scast d + 7) div 8) :: c_fault + 'w word)"
    unfolding sqlite_vec_binary_byte_size_def c_udiv_def
    using eight_nonzero [OF assms] by (rule if_not_P)
  ultimately show ?thesis unfolding returns_def by (simp only: sum.case)
qed

lemma ceiling_eighth: "\<lceil>real_of_int a / 8\<rceil> = (a + 7) div 8"
  by linarith

lemma returns_unique: "returns res m \<Longrightarrow> returns res n \<Longrightarrow> m = n"
  by (auto simp: returns_def split: sum.splits)

lemma mod_size_t_trivial:
  "0 \<le> a \<Longrightarrow> a < b \<Longrightarrow> b \<le> 2 ^ LENGTH('w::len) \<Longrightarrow> a mod 2 ^ LENGTH('w) = (a::int)"
  by (rule mod_pos_pos_trivial) simp_all

lemma binary_nonneg:
  assumes "32 \<le> LENGTH('w::len)" and "0 \<le> sint d"
  shows "returns (sqlite_vec_binary_byte_size d :: c_fault + 'w word) ((sint d + 7) div 8)"
proof -
  have "4 \<le> LENGTH('w)" using assms(1) by simp
  then have "returns (sqlite_vec_binary_byte_size d :: c_fault + 'w word)
      ((sint d + 7) mod 2 ^ LENGTH('w) div 8)"
    by (rule binary_returns)
  moreover have "(sint d + 7) mod 2 ^ LENGTH('w) = sint d + 7"
    using assms(2) c_int_range [of d] size_t_ge32 [OF assms(1)]
    by (intro mod_size_t_trivial [where b = 4294967296]) simp_all
  ultimately show ?thesis by simp
qed

lemma float32_fits:
  assumes "0 \<le> sint d" and "4 * sint d < 2 ^ LENGTH('w::len)"
  shows "returns (sqlite_vec_float32_byte_size d :: c_fault + 'w word) (4 * sint d)"
proof -
  have "(4 * sint d) mod 2 ^ LENGTH('w) = 4 * sint d"
    using assms by (intro mod_pos_pos_trivial) simp_all
  then show ?thesis using float32_returns [of d, where 'w = 'w] by simp
qed

lemma float32_fits_33:
  assumes "33 \<le> LENGTH('w::len)"
  shows "4 * sint (d::c_int) < 2 ^ LENGTH('w)"
  using c_int_range [of d] size_t_ge33 [OF assms] by linarith

lemma int8_nonneg:
  assumes "32 \<le> LENGTH('w::len)" and "0 \<le> sint d"
  shows "returns (sqlite_vec_int8_byte_size d :: c_fault + 'w word) (sint d)"
proof -
  have "sint d mod 2 ^ LENGTH('w) = sint d"
    using assms(2) c_int_range [of d] size_t_ge32 [OF assms(1)]
    by (intro mod_size_t_trivial [where b = 4294967296]) simp_all
  then show ?thesis using int8_returns [of d, where 'w = 'w] by simp
qed

lemma returns_Inr: "returns res n \<Longrightarrow> \<exists>r. res = Inr r \<and> uint r = n"
  by (cases res) (simp_all add: returns_def)

lemma binary_negative:
  assumes w: "32 \<le> LENGTH('w::len)" and d: "sint d < 0"
  shows "returns (sqlite_vec_binary_byte_size d :: c_fault + 'w word)
     (if - 8 < sint d then \<lceil>real_of_int (sint d) / 8\<rceil>
      else 2 ^ (LENGTH('w) - 3) + \<lceil>real_of_int (sint d) / 8\<rceil>)"
proof -
  have w4: "4 \<le> LENGTH('w)" and w3: "3 \<le> LENGTH('w)" using w by simp_all
  have r: "returns (sqlite_vec_binary_byte_size d :: c_fault + 'w word)
      ((sint d + 7) mod 2 ^ LENGTH('w) div 8)"
    using w4 by (rule binary_returns)
  show ?thesis
  proof (cases "- 8 < sint d")
    case True
    have "(sint d + 7) mod 2 ^ LENGTH('w) = sint d + 7"
      using True d size_t_ge32 [OF w]
      by (intro mod_size_t_trivial [where b = 4294967296]) simp_all
    moreover have "(sint d + 7) div 8 = 0" using True d by simp
    moreover have "\<lceil>real_of_int (sint d) / 8\<rceil> = 0"
      unfolding ceiling_eighth using True d by simp
    ultimately show ?thesis using r True by simp
  next
    case False
    define W :: int where "W = 2 ^ (LENGTH('w) - 3)"
    have W8: "2 ^ LENGTH('w) = 8 * W" unfolding W_def using w3 by (rule size_t_split8)
    have big: "4294967296 \<le> 8 * W" using size_t_ge32 [OF w] unfolding W8 .
    have "(sint d + 7) mod (8 * W) = (sint d + 7 + 8 * W) mod (8 * W)" by simp
    also have "\<dots> = sint d + 7 + 8 * W"
      using False c_int_range [of d] big by (intro mod_pos_pos_trivial) simp_all
    finally have "(sint d + 7) mod (8 * W) div 8 = (sint d + 7 + 8 * W) div 8" by simp
    also have "\<dots> = W + (sint d + 7) div 8" by simp
    finally have "(sint d + 7) mod 2 ^ LENGTH('w) div 8 = W + \<lceil>real_of_int (sint d) / 8\<rceil>"
      unfolding W8 ceiling_eighth .
    then show ?thesis using r False unfolding W_def by simp
  qed
qed

lemma binary_zero:
  assumes "4 \<le> LENGTH('w::len)"
  shows "returns (sqlite_vec_binary_byte_size 0 :: c_fault + 'w word) 0"
proof -
  have "(7::int) < 2 ^ LENGTH('w)" using size_t_ge4 [OF assms] by simp
  then have "((sint (0 :: c_int) + 7) mod 2 ^ LENGTH('w)) div 8 = 0" by simp
  then show ?thesis using binary_returns [OF assms, of 0] by simp
qed

section \<open>Sizes of non-negative dimensionalities\<close>

text \<open>
  C1. For every non-negative \<^verbatim>\<open>int\<close> \<open>d\<close>, \<^verbatim>\<open>sqlite_vec_binary_byte_size\<close> returns
  \<open>\<lceil>d / 8\<rceil>\<close>; it returns \<open>k\<close> when \<open>d = 8 * k\<close>, 1 for \<open>d = 1\<close> and \<open>d = 7\<close>, and 2 for
  \<open>d = 9\<close>. This holds for every \<^verbatim>\<open>size_t\<close> that has at least the 32 bits of \<^verbatim>\<open>int\<close>.
\<close>
theorem binary_byte_size_ceiling:
  "32 \<le> LENGTH('w::len) \<Longrightarrow> 0 \<le> sint d \<Longrightarrow>
     returns (sqlite_vec_binary_byte_size d :: c_fault + 'w word) \<lceil>real_of_int (sint d) / 8\<rceil>
   \<and> (sint d = 8 * k \<longrightarrow> returns (sqlite_vec_binary_byte_size d :: c_fault + 'w word) k)
   \<and> returns (sqlite_vec_binary_byte_size 1 :: c_fault + 'w word) 1
   \<and> returns (sqlite_vec_binary_byte_size 7 :: c_fault + 'w word) 1
   \<and> returns (sqlite_vec_binary_byte_size 9 :: c_fault + 'w word) 2"
proof -
  assume w: "32 \<le> LENGTH('w)" and d: "0 \<le> sint d"
  have gen: "returns (sqlite_vec_binary_byte_size d :: c_fault + 'w word) ((sint d + 7) div 8)"
    using w d by (rule binary_nonneg)
  have "returns (sqlite_vec_binary_byte_size d :: c_fault + 'w word) \<lceil>real_of_int (sint d) / 8\<rceil>"
    using gen by (simp only: ceiling_eighth)
  moreover have "sint d = 8 * k \<longrightarrow> returns (sqlite_vec_binary_byte_size d :: c_fault + 'w word) k"
  proof
    assume "sint d = 8 * k"
    then have "(sint d + 7) div 8 = k" by simp
    with gen show "returns (sqlite_vec_binary_byte_size d :: c_fault + 'w word) k" by simp
  qed
  moreover have "returns (sqlite_vec_binary_byte_size 1 :: c_fault + 'w word) 1"
    using binary_nonneg [OF w, of 1] by simp
  moreover have "returns (sqlite_vec_binary_byte_size 7 :: c_fault + 'w word) 1"
    using binary_nonneg [OF w, of 7] by simp
  moreover have "returns (sqlite_vec_binary_byte_size 9 :: c_fault + 'w word) 2"
    using binary_nonneg [OF w, of 9] by simp
  ultimately show ?thesis by blast
qed

theorem binary_byte_size_ceiling_witness:
  "32 \<le> LENGTH(64) \<and> 0 \<le> sint (16 :: c_int) \<and> sint (16 :: c_int) = 8 * 2
   \<and> returns (sqlite_vec_binary_byte_size 16 :: c_fault + 64 word) \<lceil>real_of_int (sint (16 :: c_int)) / 8\<rceil>
   \<and> returns (sqlite_vec_binary_byte_size 16 :: c_fault + 64 word) 2
   \<and> returns (sqlite_vec_binary_byte_size 9 :: c_fault + 64 word) 2"
  using binary_byte_size_ceiling [where 'w = 64 and d = 16 and k = 2] by simp

text \<open>
  C2, as stated, asks for exactly \<open>4 * d\<close> at every non-negative \<^verbatim>\<open>int\<close> \<open>d\<close>. With the
  32-bit \<^verbatim>\<open>size_t\<close> of ILP32 that fails at \<open>d = 2 ^ 30\<close>: the product \<open>2 ^ 32\<close> wraps, and
  the call returns 0.
\<close>
theorem float32_wraps_counterexample:
  "0 \<le> sint (1073741824 :: c_int)
   \<and> \<not> returns (sqlite_vec_float32_byte_size 1073741824 :: c_fault + 32 word)
        (4 * sint (1073741824 :: c_int))
   \<and> returns (sqlite_vec_float32_byte_size 1073741824 :: c_fault + 32 word) 0"
proof -
  have s: "sint (1073741824 :: c_int) = 1073741824" by simp
  have r: "returns (sqlite_vec_float32_byte_size 1073741824 :: c_fault + 32 word) 0"
    using float32_returns [of 1073741824, where 'w = 32] unfolding s by simp
  have "\<not> returns (sqlite_vec_float32_byte_size 1073741824 :: c_fault + 32 word) (4 * 1073741824)"
    using returns_unique [OF r] by fastforce
  then show ?thesis using r unfolding s by simp
qed

text \<open>
  C2, amended. For every non-negative \<^verbatim>\<open>int\<close> \<open>d\<close> and every \<^verbatim>\<open>size_t\<close> of \<open>w \<ge> 32\<close> bits,
  \<^verbatim>\<open>sqlite_vec_float32_byte_size\<close> returns \<open>4 * d\<close> modulo \<open>2 ^ w\<close>. That is exactly \<open>4 * d\<close>
  whenever \<open>4 * d < 2 ^ w\<close>, so at every non-negative \<open>d\<close> when \<open>w \<ge> 33\<close>; and it is 1536 for
  \<open>d = 384\<close>.
\<close>
theorem float32_byte_size_modulo:
  "32 \<le> LENGTH('w::len) \<Longrightarrow> 0 \<le> sint d \<Longrightarrow>
     returns (sqlite_vec_float32_byte_size d :: c_fault + 'w word)
       ((4 * sint d) mod 2 ^ LENGTH('w))
   \<and> (4 * sint d < 2 ^ LENGTH('w) \<or> 33 \<le> LENGTH('w) \<longrightarrow>
        returns (sqlite_vec_float32_byte_size d :: c_fault + 'w word) (4 * sint d))
   \<and> returns (sqlite_vec_float32_byte_size 384 :: c_fault + 'w word) 1536"
proof -
  assume w: "32 \<le> LENGTH('w)" and d: "0 \<le> sint d"
  have "returns (sqlite_vec_float32_byte_size d :: c_fault + 'w word)
      ((4 * sint d) mod 2 ^ LENGTH('w))"
    by (rule float32_returns)
  moreover have "4 * sint d < 2 ^ LENGTH('w) \<or> 33 \<le> LENGTH('w) \<longrightarrow>
      returns (sqlite_vec_float32_byte_size d :: c_fault + 'w word) (4 * sint d)"
    using float32_fits [OF d, where 'w = 'w] float32_fits_33 [of d, where 'w = 'w] by blast
  moreover have "returns (sqlite_vec_float32_byte_size 384 :: c_fault + 'w word) 1536"
  proof -
    have "4 * sint (384 :: c_int) < 2 ^ LENGTH('w)" using size_t_ge32 [OF w] by simp
    then show ?thesis using float32_fits [of 384, where 'w = 'w] by simp
  qed
  ultimately show ?thesis by blast
qed

theorem float32_byte_size_modulo_witness:
  "32 \<le> LENGTH(64) \<and> 0 \<le> sint (3 :: c_int)
   \<and> 4 * sint (3 :: c_int) < 2 ^ LENGTH(64) \<and> 33 \<le> LENGTH(64)
   \<and> returns (sqlite_vec_float32_byte_size 3 :: c_fault + 64 word) 12
   \<and> returns (sqlite_vec_float32_byte_size 384 :: c_fault + 64 word) 1536"
  using float32_byte_size_modulo [where 'w = 64 and d = 3] by simp

text \<open>
  C3. For every non-negative \<^verbatim>\<open>int\<close> \<open>d\<close>, \<^verbatim>\<open>sqlite_vec_int8_byte_size\<close> returns exactly
  \<open>d\<close>, for every \<^verbatim>\<open>size_t\<close> that has at least the 32 bits of \<^verbatim>\<open>int\<close>.
\<close>
theorem int8_byte_size_exact:
  "32 \<le> LENGTH('w::len) \<Longrightarrow> 0 \<le> sint d \<Longrightarrow>
     returns (sqlite_vec_int8_byte_size d :: c_fault + 'w word) (sint d)"
  by (rule int8_nonneg)

theorem int8_byte_size_exact_witness:
  "32 \<le> LENGTH(64) \<and> 0 \<le> sint (768 :: c_int)
   \<and> returns (sqlite_vec_int8_byte_size 768 :: c_fault + 64 word) 768"
  using int8_byte_size_exact [where 'w = 64 and d = 768] by simp

text \<open>
  C6. For dimensionality 0 each of the three functions returns 0. The bit encoding
  divides by 8, so the statement is for every \<^verbatim>\<open>size_t\<close> that can hold 8.
\<close>
theorem zero_dimensions:
  "4 \<le> LENGTH('w::len) \<Longrightarrow>
     returns (sqlite_vec_float32_byte_size 0 :: c_fault + 'w word) 0
   \<and> returns (sqlite_vec_int8_byte_size 0 :: c_fault + 'w word) 0
   \<and> returns (sqlite_vec_binary_byte_size 0 :: c_fault + 'w word) 0"
  using float32_returns [of 0, where 'w = 'w] int8_returns [of 0, where 'w = 'w]
    binary_zero [where 'w = 'w]
  by simp

theorem zero_dimensions_witness:
  "4 \<le> LENGTH(64)
   \<and> returns (sqlite_vec_float32_byte_size 0 :: c_fault + 64 word) 0
   \<and> returns (sqlite_vec_int8_byte_size 0 :: c_fault + 64 word) 0
   \<and> returns (sqlite_vec_binary_byte_size 0 :: c_fault + 64 word) 0"
  using zero_dimensions [where 'w = 64] by simp

text \<open>
  C10, as stated, orders the three sizes and makes each monotone at every non-negative
  \<^verbatim>\<open>int\<close>. With a 32-bit \<^verbatim>\<open>size_t\<close> the float32 size wraps: at \<open>d = 2 ^ 30\<close> the int8 size
  is \<open>2 ^ 30\<close> and the float32 size 0, and from \<open>d = 2 ^ 30 - 1\<close> to \<open>2 ^ 30\<close> the float32
  size falls from 4294967292 to 0.
\<close>
theorem ordering_wraps_counterexample:
  "0 \<le> sint (1073741823 :: c_int) \<and> sint (1073741823 :: c_int) \<le> sint (1073741824 :: c_int)
   \<and> returns (sqlite_vec_int8_byte_size 1073741824 :: c_fault + 32 word) 1073741824
   \<and> returns (sqlite_vec_float32_byte_size 1073741824 :: c_fault + 32 word) 0
   \<and> returns (sqlite_vec_float32_byte_size 1073741823 :: c_fault + 32 word) 4294967292
   \<and> \<not> (1073741824 :: int) \<le> 0 \<and> \<not> (4294967292 :: int) \<le> 0"
proof -
  have s: "sint (1073741824 :: c_int) = 1073741824" "sint (1073741823 :: c_int) = 1073741823"
    by simp_all
  have "returns (sqlite_vec_int8_byte_size 1073741824 :: c_fault + 32 word) 1073741824"
    using int8_returns [of 1073741824, where 'w = 32] unfolding s by simp
  moreover have "returns (sqlite_vec_float32_byte_size 1073741824 :: c_fault + 32 word) 0"
    using float32_returns [of 1073741824, where 'w = 32] unfolding s by simp
  moreover have "returns (sqlite_vec_float32_byte_size 1073741823 :: c_fault + 32 word) 4294967292"
    using float32_returns [of 1073741823, where 'w = 32] unfolding s by simp
  ultimately show ?thesis unfolding s by simp
qed

text \<open>
  C10, amended. For non-negative \<^verbatim>\<open>int\<close>s \<open>d \<le> d'\<close> and every \<^verbatim>\<open>size_t\<close> of \<open>w \<ge> 32\<close> bits:
  the bit size is at most the int8 size, and both are monotone; the int8 size is at most
  the float32 size, and the float32 size is monotone, whenever \<open>4 * d' < 2 ^ w\<close>, so at
  all non-negative \<open>d \<le> d'\<close> when \<open>w \<ge> 33\<close>.
\<close>
theorem byte_sizes_ordered_monotone:
  "32 \<le> LENGTH('w::len) \<Longrightarrow> 0 \<le> sint d \<Longrightarrow> sint d \<le> sint d' \<Longrightarrow>
     (\<exists>b i b' i'.
       returns (sqlite_vec_binary_byte_size d :: c_fault + 'w word) b
     \<and> returns (sqlite_vec_int8_byte_size d :: c_fault + 'w word) i
     \<and> returns (sqlite_vec_binary_byte_size d' :: c_fault + 'w word) b'
     \<and> returns (sqlite_vec_int8_byte_size d' :: c_fault + 'w word) i'
     \<and> b \<le> i \<and> b' \<le> i' \<and> b \<le> b' \<and> i \<le> i')
   \<and> (4 * sint d' < 2 ^ LENGTH('w) \<or> 33 \<le> LENGTH('w) \<longrightarrow>
       (\<exists>i f i' f'.
         returns (sqlite_vec_int8_byte_size d :: c_fault + 'w word) i
       \<and> returns (sqlite_vec_float32_byte_size d :: c_fault + 'w word) f
       \<and> returns (sqlite_vec_int8_byte_size d' :: c_fault + 'w word) i'
       \<and> returns (sqlite_vec_float32_byte_size d' :: c_fault + 'w word) f'
       \<and> i \<le> f \<and> i' \<le> f' \<and> f \<le> f'))"
proof -
  assume w: "32 \<le> LENGTH('w)" and d: "0 \<le> sint d" and dd': "sint d \<le> sint d'"
  have d': "0 \<le> sint d'" using d dd' by simp
  have "(sint d + 7) div 8 \<le> sint d" using d by linarith
  moreover have "(sint d' + 7) div 8 \<le> sint d'" using d' by linarith
  moreover have "(sint d + 7) div 8 \<le> (sint d' + 7) div 8" using dd' by (simp add: zdiv_mono1)
  ultimately have low: "\<exists>b i b' i'.
       returns (sqlite_vec_binary_byte_size d :: c_fault + 'w word) b
     \<and> returns (sqlite_vec_int8_byte_size d :: c_fault + 'w word) i
     \<and> returns (sqlite_vec_binary_byte_size d' :: c_fault + 'w word) b'
     \<and> returns (sqlite_vec_int8_byte_size d' :: c_fault + 'w word) i'
     \<and> b \<le> i \<and> b' \<le> i' \<and> b \<le> b' \<and> i \<le> i'"
    using binary_nonneg [OF w d] int8_nonneg [OF w d]
      binary_nonneg [OF w d'] int8_nonneg [OF w d'] dd'
    by blast
  have high: "\<exists>i f i' f'.
         returns (sqlite_vec_int8_byte_size d :: c_fault + 'w word) i
       \<and> returns (sqlite_vec_float32_byte_size d :: c_fault + 'w word) f
       \<and> returns (sqlite_vec_int8_byte_size d' :: c_fault + 'w word) i'
       \<and> returns (sqlite_vec_float32_byte_size d' :: c_fault + 'w word) f'
       \<and> i \<le> f \<and> i' \<le> f' \<and> f \<le> f'"
    if "4 * sint d' < 2 ^ LENGTH('w) \<or> 33 \<le> LENGTH('w)"
  proof -
    have fit': "4 * sint d' < 2 ^ LENGTH('w)"
      using that float32_fits_33 [of d', where 'w = 'w] by blast
    then have fit: "4 * sint d < 2 ^ LENGTH('w)" using dd' by linarith
    have "sint d \<le> 4 * sint d" using d by simp
    moreover have "sint d' \<le> 4 * sint d'" using d' by simp
    moreover have "4 * sint d \<le> 4 * sint d'" using dd' by simp
    ultimately show ?thesis
      using int8_nonneg [OF w d] int8_nonneg [OF w d'] float32_fits [OF d fit]
        float32_fits [OF d' fit']
      by blast
  qed
  show ?thesis using low high by blast
qed

theorem byte_sizes_ordered_monotone_witness:
  "32 \<le> LENGTH(64) \<and> 0 \<le> sint (9 :: c_int) \<and> sint (9 :: c_int) \<le> sint (384 :: c_int)
   \<and> 4 * sint (384 :: c_int) < 2 ^ LENGTH(64) \<and> 33 \<le> LENGTH(64)
   \<and> (\<exists>b i b' i'.
       returns (sqlite_vec_binary_byte_size 9 :: c_fault + 64 word) b
     \<and> returns (sqlite_vec_int8_byte_size 9 :: c_fault + 64 word) i
     \<and> returns (sqlite_vec_binary_byte_size 384 :: c_fault + 64 word) b'
     \<and> returns (sqlite_vec_int8_byte_size 384 :: c_fault + 64 word) i'
     \<and> b \<le> i \<and> b' \<le> i' \<and> b \<le> b' \<and> i \<le> i')
   \<and> (\<exists>i f i' f'.
         returns (sqlite_vec_int8_byte_size 9 :: c_fault + 64 word) i
       \<and> returns (sqlite_vec_float32_byte_size 9 :: c_fault + 64 word) f
       \<and> returns (sqlite_vec_int8_byte_size 384 :: c_fault + 64 word) i'
       \<and> returns (sqlite_vec_float32_byte_size 384 :: c_fault + 64 word) f'
       \<and> i \<le> f \<and> i' \<le> f' \<and> f \<le> f')"
  using byte_sizes_ordered_monotone [where 'w = 64 and d = 9 and d' = 384] by simp

section \<open>Sizes of negative dimensionalities\<close>

text \<open>
  C5, as stated, asks that a negative \<open>d\<close> gives the documented formula applied to \<open>d\<close>,
  read modulo \<open>2 ^ w\<close>. For the bit encoding that fails at \<open>d = - 8\<close> with a 64-bit
  \<^verbatim>\<open>size_t\<close>: \<open>\<lceil>- 8 / 8\<rceil> = - 1\<close>, which is \<open>2 ^ 64 - 1\<close> modulo \<open>2 ^ 64\<close>, but the call
  returns \<open>2 ^ 61 - 1\<close>, because the division by 8 comes after the wrap-around of
  \<^verbatim>\<open>(size_t)dimensions + 7\<close>.
\<close>
theorem negative_binary_counterexample:
  "sint (- 8 :: c_int) < 0
   \<and> \<not> returns (sqlite_vec_binary_byte_size (- 8) :: c_fault + 64 word)
        (\<lceil>real_of_int (sint (- 8 :: c_int)) / 8\<rceil> mod 2 ^ 64)
   \<and> \<not> returns (sqlite_vec_binary_byte_size (- 8) :: c_fault + 64 word)
        \<lceil>real_of_int (sint (- 8 :: c_int)) / 8\<rceil>
   \<and> returns (sqlite_vec_binary_byte_size (- 8) :: c_fault + 64 word) 2305843009213693951"
proof -
  have s: "sint (- 8 :: c_int) = - 8" by simp
  have r: "returns (sqlite_vec_binary_byte_size (- 8) :: c_fault + 64 word) 2305843009213693951"
    using binary_negative [where 'w = 64 and d = "- 8"] unfolding s ceiling_eighth by simp
  have c: "\<lceil>real_of_int (- 8) / 8\<rceil> = - 1" unfolding ceiling_eighth by simp
  have "\<not> returns (sqlite_vec_binary_byte_size (- 8) :: c_fault + 64 word) (- 1 mod 2 ^ 64)"
    using returns_unique [OF r] by fastforce
  moreover have "\<not> returns (sqlite_vec_binary_byte_size (- 8) :: c_fault + 64 word) (- 1)"
    using returns_unique [OF r] by fastforce
  ultimately show ?thesis using r unfolding s c by simp
qed

text \<open>
  C5, amended. For every negative \<^verbatim>\<open>int\<close> \<open>d\<close> and every \<^verbatim>\<open>size_t\<close> of \<open>w \<ge> 32\<close> bits:
  \<^verbatim>\<open>sqlite_vec_float32_byte_size\<close> returns \<open>4 * d\<close> modulo \<open>2 ^ w\<close>,
  \<^verbatim>\<open>sqlite_vec_int8_byte_size\<close> returns \<open>d\<close> modulo \<open>2 ^ w\<close>, and
  \<^verbatim>\<open>sqlite_vec_binary_byte_size\<close> returns \<open>\<lceil>d / 8\<rceil>\<close> (which is 0) for \<open>- 7 \<le> d \<le> - 1\<close> and
  \<open>2 ^ (w - 3) + \<lceil>d / 8\<rceil>\<close> for \<open>d \<le> - 8\<close>.
\<close>
theorem negative_byte_sizes:
  "32 \<le> LENGTH('w::len) \<Longrightarrow> sint d < 0 \<Longrightarrow>
     returns (sqlite_vec_float32_byte_size d :: c_fault + 'w word)
       ((4 * sint d) mod 2 ^ LENGTH('w))
   \<and> returns (sqlite_vec_int8_byte_size d :: c_fault + 'w word)
       (sint d mod 2 ^ LENGTH('w))
   \<and> returns (sqlite_vec_binary_byte_size d :: c_fault + 'w word)
       (if - 8 < sint d then \<lceil>real_of_int (sint d) / 8\<rceil>
        else 2 ^ (LENGTH('w) - 3) + \<lceil>real_of_int (sint d) / 8\<rceil>)"
  using float32_returns [of d, where 'w = 'w] int8_returns [of d, where 'w = 'w]
    binary_negative [of d, where 'w = 'w]
  by blast

theorem negative_byte_sizes_witness:
  "32 \<le> LENGTH(64) \<and> sint (- 16 :: c_int) < 0
   \<and> returns (sqlite_vec_float32_byte_size (- 16) :: c_fault + 64 word) (2 ^ 64 - 64)
   \<and> returns (sqlite_vec_int8_byte_size (- 16) :: c_fault + 64 word) (2 ^ 64 - 16)
   \<and> returns (sqlite_vec_binary_byte_size (- 16) :: c_fault + 64 word) (2 ^ 61 - 2)"
proof -
  have s: "sint (- 16 :: c_int) = - 16" by simp
  show ?thesis
    using negative_byte_sizes [where 'w = 64 and d = "- 16"] unfolding s ceiling_eighth by simp
qed

section \<open>No failure\<close>

text \<open>
  C7. Each of the three functions returns a \<^verbatim>\<open>size_t\<close>, a non-negative number, for every
  \<^verbatim>\<open>int\<close> argument (the non-negative ones included): the one operation that could
  fault, the division, has the non-zero divisor 8 in every \<^verbatim>\<open>size_t\<close> that can hold 8.
\<close>
theorem byte_size_total:
  "4 \<le> LENGTH('w::len) \<Longrightarrow>
     (\<exists>r :: 'w word. sqlite_vec_float32_byte_size d = Inr r \<and> 0 \<le> uint r)
   \<and> (\<exists>r :: 'w word. sqlite_vec_int8_byte_size d = Inr r \<and> 0 \<le> uint r)
   \<and> (\<exists>r :: 'w word. sqlite_vec_binary_byte_size d = Inr r \<and> 0 \<le> uint r)"
proof -
  assume w: "4 \<le> LENGTH('w)"
  have "\<exists>r :: 'w word. sqlite_vec_float32_byte_size d = Inr r \<and> 0 \<le> uint r"
    by (simp add: sqlite_vec_float32_byte_size_def)
  moreover have "\<exists>r :: 'w word. sqlite_vec_int8_byte_size d = Inr r \<and> 0 \<le> uint r"
    by (simp add: sqlite_vec_int8_byte_size_def)
  moreover have "\<exists>r :: 'w word. sqlite_vec_binary_byte_size d = Inr r \<and> 0 \<le> uint r"
    using returns_Inr [OF binary_returns [OF w, of d]] by auto
  ultimately show ?thesis by blast
qed

theorem byte_size_total_witness:
  "4 \<le> LENGTH(64)
   \<and> (\<exists>r :: 64 word. sqlite_vec_float32_byte_size 5 = Inr r \<and> 0 \<le> uint r)
   \<and> (\<exists>r :: 64 word. sqlite_vec_int8_byte_size 5 = Inr r \<and> 0 \<le> uint r)
   \<and> (\<exists>r :: 64 word. sqlite_vec_binary_byte_size 5 = Inr r \<and> 0 \<le> uint r)"
  using byte_size_total [where 'w = 64 and d = 5] by simp

section \<open>Version and registration\<close>

text \<open>
  C9. \<^verbatim>\<open>sqlite_vec_version\<close> returns the extension's \<^verbatim>\<open>SQLITE_VEC_VERSION\<close> as it is, and
  every call within a process (one extension linked, after any history of calls) replies
  with that same string and leaves the world as it was.
\<close>
theorem version_constant:
  "sqlite_vec_version E = SQLITE_VEC_VERSION E
   \<and> (serve E Version (snd (run E cs w :: 'w::len word reply list \<times> _)) :: 'w word reply \<times> _)
       = (Version_string (SQLITE_VEC_VERSION E), snd (run E cs w :: 'w word reply list \<times> _))"
  by (simp add: sqlite_vec_version_def)

text \<open>
  C4. For every handle \<open>db\<close>, \<^verbatim>\<open>sqlite_vec_register\<close> makes exactly one call of the
  extension's entry point, with \<open>db\<close> and \<open>NULL\<close> for both pointer parameters, and returns
  the status of that call as it is; the world afterwards is the one that call left.
\<close>
theorem register_forwards:
  "sqlite_vec_register E db w =
     (fst (sqlite3_vec_init E db NULL NULL (ext_state w)),
      w\<lparr>init_calls := init_calls w @ [(db, NULL, NULL)],
        ext_state := snd (sqlite3_vec_init E db NULL NULL (ext_state w))\<rparr>)"
  by (simp add: sqlite_vec_register_def call_sqlite3_vec_init_def split_def Let_def)

end
